theory Spec2Isabelle
  imports Main
begin

section \<open>Python values\<close>

text \<open>
  The values that reach \<^verbatim>\<open>microstructure_gen\<close>: what a caller or a CSV row puts into a
  parameter dictionary and what the ledger file holds. A finite float \<open>Fin m e\<close> is the
  binary64 number \<open>m * 2 ^ e\<close> in canonical form (\<open>2 ^ 52 \<le> \<bar>m\<bar> < 2 ^ 53\<close>, or \<open>e = - 1074\<close>
  for the subnormal range, and \<open>Fin 0 0\<close> for \<open>0.0\<close>); \<open>NegZero\<close> is \<open>-0.0\<close>.
  Strings are byte strings; every literal of the source is ASCII.
\<close>

datatype pyfloat = Fin int int | NegZero | PosInf | NegInf | NaN

datatype pyval =
    PNone
  | PBool bool
  | PInt int
  | PFloat pyfloat
  | PStr string
  | PList "pyval list"

datatype pyerror =
    KeyError | TypeError | ValueError | OverflowError | FileNotFoundError | DecodeError

subsection \<open>Conversion to binary64, correctly rounded\<close>

text \<open>
  \<open>round_double n d\<close> is the float nearest to the fraction \<open>n / d\<close> (ties to even), as
  \<^verbatim>\<open>float(str)\<close> and \<^verbatim>\<open>float(int)\<close> compute it.
\<close>

fun ndigits :: "nat \<Rightarrow> nat \<Rightarrow> int" where
  "ndigits b n = (if n = 0 \<or> b < 2 then 0 else ndigits b (n div b) + 1)"

declare ndigits.simps [simp del]

definition ilog :: "nat \<Rightarrow> nat \<Rightarrow> nat \<Rightarrow> int" where
  "ilog b n d =
     (let t = ndigits b n - ndigits b d
      in if (if 0 \<le> t then d * b ^ nat t \<le> n else d \<le> n * b ^ nat (- t)) then t else t - 1)"

definition round_half_even :: "nat \<Rightarrow> nat \<Rightarrow> nat" where
  "round_half_even n d =
     (let f = n div d; r = n mod d
      in if 2 * r < d then f
         else if d < 2 * r then f + 1
         else if even f then f else f + 1)"

definition round_pos :: "nat \<Rightarrow> nat \<Rightarrow> (nat \<times> int) option" where
  "round_pos n d =
     (let u = max (ilog 2 n d - 52) (- 1074);
          m = (if 0 \<le> u then round_half_even n (d * 2 ^ nat u)
               else round_half_even (n * 2 ^ nat (- u)) d);
          (m', u') = (if m = 2 ^ 53 then (2 ^ 52, u + 1) else (m, u))
      in if 971 < u' then None else Some (m', u'))"

definition round_double :: "int \<Rightarrow> nat \<Rightarrow> pyfloat" where
  "round_double n d =
     (if n = 0 then Fin 0 0
      else if 0 < n then
        (case round_pos (nat n) d of None \<Rightarrow> PosInf | Some (m, e) \<Rightarrow>
           if m = 0 then Fin 0 0 else Fin (int m) e)
      else
        (case round_pos (nat (- n)) d of None \<Rightarrow> NegInf | Some (m, e) \<Rightarrow>
           if m = 0 then NegZero else Fin (- int m) e))"

definition dec_double :: "bool \<Rightarrow> nat \<Rightarrow> int \<Rightarrow> pyfloat" where
  \<comment> \<open>the float nearest to \<open>\<plusminus> c * 10 ^ k\<close>\<close>
  "dec_double neg c k =
     (if c = 0 then (if neg then NegZero else Fin 0 0)
      else if 0 \<le> k then round_double ((if neg then - 1 else 1) * int (c * 10 ^ nat k)) 1
      else round_double ((if neg then - 1 else 1) * int c) (10 ^ nat (- k)))"

subsection \<open>\<^verbatim>\<open>int(x)\<close> of a float, and \<^verbatim>\<open><\<close> on floats\<close>

fun py_int :: "pyfloat \<Rightarrow> pyerror + int" where
  "py_int (Fin m e) =
     Inr (if 0 \<le> e then m * 2 ^ nat e
          else if 0 \<le> m then m div 2 ^ nat (- e)
          else - ((- m) div 2 ^ nat (- e)))"
| "py_int NegZero = Inr 0"
| "py_int PosInf = Inl OverflowError"
| "py_int NegInf = Inl OverflowError"
| "py_int NaN = Inl ValueError"

fun fin_lt :: "int \<times> int \<Rightarrow> int \<times> int \<Rightarrow> bool" where
  "fin_lt (m1, e1) (m2, e2) =
     (m1 * 2 ^ nat (e1 - min e1 e2) < m2 * 2 ^ nat (e2 - min e1 e2))"

fun float_lt :: "pyfloat \<Rightarrow> pyfloat \<Rightarrow> bool" where
  "float_lt NaN _ = False"
| "float_lt _ NaN = False"
| "float_lt PosInf _ = False"
| "float_lt _ PosInf = True"
| "float_lt _ NegInf = False"
| "float_lt NegInf _ = True"
| "float_lt (Fin m1 e1) (Fin m2 e2) = fin_lt (m1, e1) (m2, e2)"
| "float_lt (Fin m1 e1) NegZero = fin_lt (m1, e1) (0, 0)"
| "float_lt NegZero (Fin m2 e2) = fin_lt (0, 0) (m2, e2)"
| "float_lt NegZero NegZero = False"

subsection \<open>\<^verbatim>\<open>str\<close> and \<^verbatim>\<open>repr\<close>\<close>

definition digit_char :: "nat \<Rightarrow> char" where
  "digit_char d = ''0123456789abcdef'' ! (d mod 16)"

fun nat_str :: "nat \<Rightarrow> string" where
  "nat_str n = (if n < 10 then [digit_char n] else nat_str (n div 10) @ [digit_char (n mod 10)])"

declare nat_str.simps [simp del]

definition int_str :: "int \<Rightarrow> string" where
  "int_str i = (if i < 0 then CHR ''-'' # nat_str (nat (- i)) else nat_str (nat i))"

text \<open>
  \<^verbatim>\<open>repr(float)\<close>: the shortest digit string that reads back as the same float, then
  Python's layout (exponent form when the decimal point position is below \<open>-3\<close> or
  above \<open>16\<close>, a trailing \<^verbatim>\<open>.0\<close> on whole numbers).
\<close>

definition scaled :: "nat \<Rightarrow> int \<Rightarrow> int \<Rightarrow> nat \<times> nat" where
  \<comment> \<open>\<open>m * 2 ^ e * 10 ^ s\<close> as a fraction\<close>
  "scaled m e s =
     (let (a, b) = (if 0 \<le> e then (m * 2 ^ nat e, 1) else (m, 2 ^ nat (- e)))
      in if 0 \<le> s then (a * 10 ^ nat s, b) else (a, b * 10 ^ nat (- s)))"

definition candidates :: "nat \<Rightarrow> int \<Rightarrow> int \<Rightarrow> nat list" where
  \<comment> \<open>the integers next to \<open>m * 2 ^ e * 10 ^ s\<close>, the nearer one first\<close>
  "candidates m e s =
     (let (a, b) = scaled m e s; lo = a div b; r = a mod b
      in if r = 0 then [lo]
         else if 2 * r < b then [lo, lo + 1]
         else if b < 2 * r then [lo + 1, lo]
         else if even lo then [lo, lo + 1] else [lo + 1, lo])"

definition reads_back :: "nat \<Rightarrow> int \<Rightarrow> int \<Rightarrow> nat \<Rightarrow> bool" where
  "reads_back m e s c = (dec_double False c (- s) = Fin (int m) e)"

function shortest :: "nat \<Rightarrow> nat \<Rightarrow> int \<Rightarrow> nat \<times> int" where
  "shortest n m e =
     (let s = int n - (ilog 10 (fst (scaled m e 0)) (snd (scaled m e 0)) + 1);
          cs = candidates m e s
      in if 17 \<le> n then (hd cs, s)
         else (case filter (reads_back m e s) cs of
                 c # _ \<Rightarrow> (c, s)
               | [] \<Rightarrow> shortest (n + 1) m e))"
  by pat_completeness auto
termination
  by (relation "measure (\<lambda>(n, m, e). 17 - n)") auto

declare shortest.simps [simp del]

fun strip_zeros :: "string \<Rightarrow> string" where
  "strip_zeros s = rev (dropWhile (\<lambda>c. c = CHR ''0'') (rev s))"

definition exp_str :: "int \<Rightarrow> string" where
  "exp_str x =
     (if x < 0 then CHR ''-'' else CHR ''+'') #
     (if \<bar>x\<bar> < 10 then CHR ''0'' # nat_str (nat \<bar>x\<bar>) else nat_str (nat \<bar>x\<bar>))"

definition layout :: "string \<Rightarrow> int \<Rightarrow> string" where
  \<comment> \<open>digits \<open>ds\<close> with the decimal point after \<open>decpt\<close> of them\<close>
  "layout ds decpt =
     (if decpt \<le> - 4 \<or> 16 < decpt then
        (case ds of
           [] \<Rightarrow> []
         | [d] \<Rightarrow> d # CHR ''e'' # exp_str (decpt - 1)
         | d # rest \<Rightarrow> d # CHR ''.'' # rest @ CHR ''e'' # exp_str (decpt - 1))
      else if decpt \<le> 0 then ''0.'' @ replicate (nat (- decpt)) (CHR ''0'') @ ds
      else if int (length ds) \<le> decpt then
        ds @ replicate (nat decpt - length ds) (CHR ''0'') @ ''.0''
      else take (nat decpt) ds @ CHR ''.'' # drop (nat decpt) ds)"

definition pos_repr :: "nat \<Rightarrow> int \<Rightarrow> string" where
  "pos_repr m e =
     (let (c, s) = shortest 1 m e; ds = nat_str c
      in layout (strip_zeros ds) (int (length ds) - s))"

fun float_repr :: "pyfloat \<Rightarrow> string" where
  "float_repr NaN = ''nan''"
| "float_repr PosInf = ''inf''"
| "float_repr NegInf = ''-inf''"
| "float_repr NegZero = ''-0.0''"
| "float_repr (Fin m e) =
     (if m = 0 then ''0.0''
      else if m < 0 then CHR ''-'' # pos_repr (nat (- m)) e
      else pos_repr (nat m) e)"

subsection \<open>\<^verbatim>\<open>float(x)\<close>\<close>

text \<open>
  A string is stripped of surrounding white space, then read as an optional sign followed
  by \<^verbatim>\<open>inf\<close>, \<^verbatim>\<open>infinity\<close> or \<^verbatim>\<open>nan\<close> (in any case), or by a decimal number with an
  optional exponent; an underscore may stand between two digits.
\<close>

definition is_space :: "char \<Rightarrow> bool" where
  "is_space c = (c \<in> set [CHR '' '', CHR 0x09, CHR 0x0A, CHR 0x0B, CHR 0x0C, CHR 0x0D])"

definition strip :: "string \<Rightarrow> string" where
  "strip s = rev (dropWhile is_space (rev (dropWhile is_space s)))"

definition lower :: "char \<Rightarrow> char" where
  "lower c =
     (case map_of (zip ''ABCDEFGHIJKLMNOPQRSTUVWXYZ'' ''abcdefghijklmnopqrstuvwxyz'') c of
        Some l \<Rightarrow> l | None \<Rightarrow> c)"

definition digit_val :: "char \<Rightarrow> nat option" where
  "digit_val c = map_of (zip ''0123456789'' [0, 1, 2, 3, 4, 5, 6, 7, 8, 9]) c"

definition is_digit :: "char \<Rightarrow> bool" where
  "is_digit c = (digit_val c \<noteq> None)"

definition in_run :: "char \<Rightarrow> bool" where
  "in_run c = (is_digit c \<or> c = CHR ''_'')"

fun valid_run :: "string \<Rightarrow> bool" where
  \<comment> \<open>every underscore stands between two digits\<close>
  "valid_run [] = True"
| "valid_run [c] = is_digit c"
| "valid_run (c # d # r) =
     (is_digit c \<and> (if d = CHR ''_'' then r \<noteq> [] \<and> valid_run r else valid_run (d # r)))"

fun digits_val :: "nat \<Rightarrow> string \<Rightarrow> nat" where
  "digits_val acc [] = acc"
| "digits_val acc (c # r) =
     (case digit_val c of Some d \<Rightarrow> digits_val (10 * acc + d) r | None \<Rightarrow> digits_val acc r)"

definition split_sign :: "string \<Rightarrow> bool \<times> string" where
  "split_sign s =
     (case s of
        [] \<Rightarrow> (False, [])
      | c # r \<Rightarrow> if c = CHR ''-'' then (True, r) else if c = CHR ''+'' then (False, r)
                else (False, s))"

definition parse_exponent :: "string \<Rightarrow> int option" where
  \<comment> \<open>what follows the mantissa: nothing, or \<^verbatim>\<open>e\<close>, a sign and digits\<close>
  "parse_exponent s =
     (case s of
        [] \<Rightarrow> Some 0
      | c # r \<Rightarrow>
          if c = CHR ''e'' \<or> c = CHR ''E'' then
            (let (neg, ds) = split_sign r
             in if ds \<noteq> [] \<and> list_all in_run ds \<and> valid_run ds
                then Some ((if neg then - 1 else 1) * int (digits_val 0 ds))
                else None)
          else None)"

definition parse_decimal :: "bool \<Rightarrow> string \<Rightarrow> pyfloat option" where
  "parse_decimal neg s =
     (let ip = takeWhile in_run s; r1 = dropWhile in_run s;
          dot = (r1 \<noteq> [] \<and> hd r1 = CHR ''.'');
          fp = (if dot then takeWhile in_run (tl r1) else []);
          r2 = (if dot then dropWhile in_run (tl r1) else r1)
      in if (ip = [] \<and> fp = []) \<or> \<not> valid_run ip \<or> \<not> valid_run fp then None
         else (case parse_exponent r2 of
                 None \<Rightarrow> None
               | Some x \<Rightarrow>
                   Some (dec_double neg (digits_val 0 (ip @ fp))
                           (x - int (length (filter is_digit fp))))))"

definition parse_float :: "string \<Rightarrow> pyfloat option" where
  "parse_float s =
     (let (neg, r) = split_sign (strip s); w = map lower r
      in if w = ''inf'' \<or> w = ''infinity'' then Some (if neg then NegInf else PosInf)
         else if w = ''nan'' then Some NaN
         else parse_decimal neg r)"

fun py_float :: "pyval \<Rightarrow> pyerror + pyfloat" where
  "py_float PNone = Inl TypeError"
| "py_float (PBool b) = Inr (if b then dec_double False 1 0 else Fin 0 0)"
| "py_float (PInt i) =
     (case dec_double (i < 0) (nat \<bar>i\<bar>) 0 of
        PosInf \<Rightarrow> Inl OverflowError
      | NegInf \<Rightarrow> Inl OverflowError
      | f \<Rightarrow> Inr f)"
| "py_float (PFloat f) = Inr f"
| "py_float (PStr s) = (case parse_float s of None \<Rightarrow> Inl ValueError | Some f \<Rightarrow> Inr f)"
| "py_float (PList _) = Inl TypeError"

subsection \<open>\<^verbatim>\<open>str(x)\<close> and \<^verbatim>\<open>repr(x)\<close> of a value\<close>

definition hex2 :: "nat \<Rightarrow> string" where
  "hex2 n = [digit_char (n div 16), digit_char (n mod 16)]"

definition escape_char :: "char \<Rightarrow> char \<Rightarrow> string" where
  "escape_char q c =
     (if c = CHR 0x5C then [CHR 0x5C, CHR 0x5C]
      else if c = q then [CHR 0x5C, q]
      else if c = CHR 0x0A then [CHR 0x5C, CHR ''n'']
      else if c = CHR 0x0D then [CHR 0x5C, CHR ''r'']
      else if c = CHR 0x09 then [CHR 0x5C, CHR ''t'']
      else if of_char c < (32 :: nat) \<or> of_char c = (127 :: nat)
        then [CHR 0x5C, CHR ''x''] @ hex2 (of_char c)
      else [c])"

definition str_repr :: "string \<Rightarrow> string" where
  "str_repr s =
     (let q = (if CHR 0x27 \<in> set s \<and> CHR 0x22 \<notin> set s then CHR 0x22 else CHR 0x27)
      in q # concat (map (escape_char q) s) @ [q])"

fun join :: "string \<Rightarrow> string list \<Rightarrow> string" where
  "join sep [] = []"
| "join sep [x] = x"
| "join sep (x # y # r) = x @ sep @ join sep (y # r)"

fun py_repr :: "pyval \<Rightarrow> string" where
  "py_repr PNone = ''None''"
| "py_repr (PBool b) = (if b then ''True'' else ''False'')"
| "py_repr (PInt i) = int_str i"
| "py_repr (PFloat f) = float_repr f"
| "py_repr (PStr s) = str_repr s"
| "py_repr (PList vs) = ''['' @ join '', '' (map py_repr vs) @ '']''"

fun py_str :: "pyval \<Rightarrow> string" where
  "py_str (PStr s) = s"
| "py_str v = py_repr v"


section \<open>Dictionaries, files and the generator object\<close>

text \<open>
  A Python \<^verbatim>\<open>dict\<close> is an association list in insertion order with distinct keys:
  assigning to a present key replaces the value in place, assigning to a new key appends.
  The keys of a parameter dictionary are field names, and \<open>None\<close> for the key
  \<^verbatim>\<open>csv.DictReader\<close> files surplus columns under.
\<close>

fun dict_set :: "('k \<times> 'v) list \<Rightarrow> 'k \<Rightarrow> 'v \<Rightarrow> ('k \<times> 'v) list" where
  "dict_set [] k v = [(k, v)]"
| "dict_set ((k', v') # d) k v = (if k' = k then (k, v) # d else (k', v') # dict_set d k v)"

definition dict_del :: "('k \<times> 'v) list \<Rightarrow> 'k \<Rightarrow> ('k \<times> 'v) list" where
  "dict_del d k = filter (\<lambda>kv. fst kv \<noteq> k) d"

type_synonym pdict = "(string option \<times> pyval) list"

type_synonym ledger = "(string \<times> pdict) list"

definition getitem :: "pdict \<Rightarrow> string \<Rightarrow> pyerror + pyval" where
  "getitem p k = (case map_of p (Some k) of None \<Rightarrow> Inl KeyError | Some v \<Rightarrow> Inr v)"

fun sequence :: "('e + 'a) list \<Rightarrow> 'e + 'a list" where
  \<comment> \<open>evaluation from left to right: the first exception is the one raised\<close>
  "sequence [] = Inr []"
| "sequence (x # xs) =
     (case x of
        Inl e \<Rightarrow> Inl e
      | Inr v \<Rightarrow> (case sequence xs of Inl e \<Rightarrow> Inl e | Inr vs \<Rightarrow> Inr (v # vs)))"

text \<open>
  Files. The text layer of the \<^verbatim>\<open>json\<close>, \<^verbatim>\<open>csv\<close> and \<^verbatim>\<open>scipy.io\<close> modules is not
  modelled: a ledger file holds a JSON object of objects (members in document order,
  repeated names possible), a descriptor file its rows of cells, a \<^verbatim>\<open>.mat\<close> file its
  variables, a script file the chunks written to it. An array is seen through
  \<^verbatim>\<open>tobytes()\<close> and \<^verbatim>\<open>flatten().tolist()\<close>. Paths are plain strings, writing a file always
  succeeds, and reading a file of another kind is a decoding error.
\<close>

datatype ndarray = NDArray (tobytes: string) (tolist: "pyval list")

datatype fcontent =
    JsonFile "(string \<times> (string \<times> pyval) list) list"
  | MatFile "(string \<times> ndarray) list"
  | CsvFile "string list list"
  | ScriptFile "string list"
  | Dir

text \<open>
  The fields of \<^verbatim>\<open>self\<close>, the file system and the lines printed so far. \<open>params\<close> is the
  set \<^verbatim>\<open>self.params\<close> as the list of its elements in iteration order, which Python does
  not fix. Dictionaries are values here: the ledger holds the parameter dictionary as it
  was when it was admitted, and a caller that changes its dictionary afterwards is not
  modelled. \<^verbatim>\<open>run_jobs\<close> and \<^verbatim>\<open>load_and_run\<close> start MATLAB and are left out.
\<close>

record state =
  jobs :: "pdict list"
  params :: "string list"
  params_filename :: ledger
  json_file :: string
  data_dir :: string
  fs :: "string \<Rightarrow> fcontent option"
  stdout :: "string list"

definition py_print :: "string \<Rightarrow> state \<Rightarrow> state" where
  "py_print s st = st\<lparr>stdout := stdout st @ [s]\<rparr>"

definition required_params :: "string list" where
  "required_params =
     [''ParRu'', ''ParRv'', ''pix'', ''NumAgl'', ''VfAglm'', ''VfFree'', ''scale'', ''seed'']"

subsection \<open>The ledger file\<close>

text \<open>
  \<^verbatim>\<open>json.dump\<close> writes the key \<^verbatim>\<open>None\<close> as the name \<^verbatim>\<open>null\<close>; \<^verbatim>\<open>json.load\<close> builds each
  dictionary by assigning the members in order, so a repeated name keeps its last value.
\<close>

definition json_key :: "string option \<Rightarrow> string" where
  "json_key k = (case k of None \<Rightarrow> ''null'' | Some s \<Rightarrow> s)"

definition dump_params :: "pdict \<Rightarrow> (string \<times> pyval) list" where
  "dump_params p = map (\<lambda>kv. (json_key (fst kv), snd kv)) p"

definition json_dump :: "ledger \<Rightarrow> (string \<times> (string \<times> pyval) list) list" where
  "json_dump l = map (\<lambda>e. (fst e, dump_params (snd e))) l"

definition load_params :: "(string \<times> pyval) list \<Rightarrow> pdict" where
  "load_params ms = foldl (\<lambda>d kv. dict_set d (Some (fst kv)) (snd kv)) [] ms"

definition json_load :: "(string \<times> (string \<times> pyval) list) list \<Rightarrow> ledger" where
  "json_load c = foldl (\<lambda>d e. dict_set d (fst e) (load_params (snd e))) [] c"

definition write_json :: "state \<Rightarrow> state" where
  \<comment> \<open>\<^verbatim>\<open>with open(self.json_file,'w') as f: json.dump(self.params_filename, f)\<close>\<close>
  "write_json st = st\<lparr>fs := (fs st)(json_file st \<mapsto> JsonFile (json_dump (params_filename st)))\<rparr>"

subsection \<open>\<^verbatim>\<open>__init__\<close>\<close>

definition init ::
  "string \<Rightarrow> string \<Rightarrow> (string \<Rightarrow> fcontent option) \<Rightarrow> string list \<Rightarrow> pyerror + state" where
  "init jf dd files out =
     (case (case files jf of
              None \<Rightarrow> Inr []
            | Some (JsonFile c) \<Rightarrow> Inr (json_load c)
            | Some _ \<Rightarrow> Inl DecodeError) of
        Inl e \<Rightarrow> Inl e
      | Inr l \<Rightarrow>
          Inr \<lparr>jobs = [], params = required_params, params_filename = l, json_file = jf,
               data_dir = dd,
               fs = (if files dd = None then files(dd \<mapsto> Dir) else files),
               stdout = out\<rparr>)"

subsection \<open>\<^verbatim>\<open>generate_mat_name\<close>\<close>

definition coerce_float :: "pdict \<Rightarrow> string \<Rightarrow> pyerror + pyfloat" where
  \<comment> \<open>\<^verbatim>\<open>float(params[k])\<close>\<close>
  "coerce_float p k = (case getitem p k of Inl e \<Rightarrow> Inl e | Inr v \<Rightarrow> py_float v)"

definition coerce_int :: "pdict \<Rightarrow> string \<Rightarrow> pyerror + int" where
  \<comment> \<open>\<^verbatim>\<open>int(float(params[k]))\<close>\<close>
  "coerce_int p k = (case coerce_float p k of Inl e \<Rightarrow> Inl e | Inr f \<Rightarrow> py_int f)"

definition fmt_int :: "pdict \<Rightarrow> string \<Rightarrow> pyerror + string" where
  "fmt_int p k = (case coerce_int p k of Inl e \<Rightarrow> Inl e | Inr i \<Rightarrow> Inr (int_str i))"

definition fmt_float :: "pdict \<Rightarrow> string \<Rightarrow> pyerror + string" where
  "fmt_float p k = (case coerce_float p k of Inl e \<Rightarrow> Inl e | Inr f \<Rightarrow> Inr (float_repr f))"

definition generate_mat_name :: "pdict \<Rightarrow> pyerror + string" where
  "generate_mat_name p =
     (case sequence
             [fmt_int p ''ParRu'', fmt_int p ''ParRv'', fmt_int p ''pix'', fmt_int p ''NumAgl'',
              fmt_float p ''VfAglm'', fmt_float p ''VfFree'',
              fmt_int p ''scale'', fmt_int p ''seed''] of
        Inl e \<Rightarrow> Inl e
      | Inr parts \<Rightarrow> Inr (join ''_'' parts @ ''.mat''))"

subsection \<open>\<^verbatim>\<open>update_params_filename\<close> and \<^verbatim>\<open>add_job\<close>\<close>

definition update_params_filename :: "pdict \<Rightarrow> string \<Rightarrow> state \<Rightarrow> state" where
  "update_params_filename p filename st =
     write_json (st\<lparr>params_filename := dict_set (params_filename st) filename p\<rparr>)"

definition missing :: "pdict \<Rightarrow> string \<Rightarrow> bool" where
  \<comment> \<open>\<^verbatim>\<open>par not in params\<close>\<close>
  "missing p par = (map_of p (Some par) = None)"

definition add_job :: "pdict \<Rightarrow> state \<Rightarrow> pyerror option \<times> state" where
  "add_job p st =
     (case find (missing p) (params st) of
        Some par \<Rightarrow> (None, py_print (''Please specify '' @ par @ '' in params. Abort.'') st)
      | None \<Rightarrow>
          (case generate_mat_name p of
             Inl e \<Rightarrow> (Some e, st)
           | Inr filename \<Rightarrow>
               (let st' = update_params_filename p filename st;
                    job = dict_set p (Some ''filename'') (PStr filename)
                in (None, st'\<lparr>jobs := jobs st' @ [job]\<rparr>))))"

subsection \<open>\<^verbatim>\<open>write_m_file\<close>\<close>

text \<open>
  The script is the list of the chunks passed to \<^verbatim>\<open>f.write\<close>. The job list is turned into
  one column per key of \<^verbatim>\<open>params_list\<close> (a missing key raises before the file is opened);
  joining the file names raises when one of them is not a string, after the first two
  chunks have been written.
\<close>

definition nl :: string where
  "nl = [CHR 0x0A]"

definition sq :: string where
  "sq = [CHR 0x27]"

definition dq :: string where
  "dq = [CHR 0x22]"

definition list_keys :: "state \<Rightarrow> string list" where
  \<comment> \<open>the keys of \<^verbatim>\<open>params_list\<close>, in order\<close>
  "list_keys st =
     (if ''filename'' \<in> set (params st) then params st else params st @ [''filename''])"

definition job_cells :: "string list \<Rightarrow> pdict \<Rightarrow> pyerror + pyval list" where
  "job_cells ks job = sequence (map (getitem job) ks)"

definition column :: "pdict list \<Rightarrow> string \<Rightarrow> pyval list" where
  \<comment> \<open>\<^verbatim>\<open>params_list[par]\<close>, once every job has every key\<close>
  "column js par = map (\<lambda>job. case getitem job par of Inr v \<Rightarrow> v | Inl _ \<Rightarrow> PNone) js"

fun str_items :: "pyval list \<Rightarrow> string list option" where
  \<comment> \<open>the operands of \<^verbatim>\<open>str.join\<close>: strings only\<close>
  "str_items [] = Some []"
| "str_items (PStr s # vs) = (case str_items vs of None \<Rightarrow> None | Some ss \<Rightarrow> Some (s # ss))"
| "str_items (_ # vs) = None"

definition param_line :: "pdict list \<Rightarrow> string \<Rightarrow> string" where
  "param_line js par = par @ '' = ['' @ join '' '' (map py_str (column js par)) @ ''];'' @ nl"

definition seed_lines :: "string list" where
  "seed_lines = [''rng('' @ sq @ ''default'' @ sq @ '');'' @ nl, ''rng(seed(1));'' @ nl]"

definition create_line :: string where
  "create_line =
     ''    MS = CreateAglom2DPBC(ParRu(i),ParRv(i),VfAfl,pix(i),NumAgl(i),VfAglm(i),VfFree(i),scale(i),seed(i));''
     @ nl"

definition loop_lines :: "string list" where
  "loop_lines =
     [''for i = 1:batch'' @ nl,
      ''    if NumAgl(i) > 1'' @ nl,
      ''        intervals = sort(rand(1,NumAgl(i)-1));'' @ nl,
      ''        VfAfl = VfAglm(i)*([intervals,1] - [0,intervals]);'' @ nl,
      ''    else'' @ nl,
      ''        VfAfl = [VfAglm(i)];'' @ nl,
      ''    end'' @ nl,
      ''    save(strcat(data_dir,'' @ sq @ ''VfAfl_'' @ sq @ '',filename(i)), '' @ sq @ ''VfAfl''
        @ sq @ '');'' @ nl,
      create_line,
      ''    save(strcat(data_dir,filename(i)), '' @ sq @ ''MS'' @ sq @ '');'' @ nl,
      ''end'' @ nl,
      ''exit;'' @ nl]"

definition head_lines :: "state \<Rightarrow> string list" where
  "head_lines st =
     [''batch = '' @ nat_str (length (jobs st)) @ '';'' @ nl,
      ''data_dir = '' @ dq @ data_dir st @ ''/'' @ dq @ '';'' @ nl]"

definition write_m_file :: "string \<Rightarrow> state \<Rightarrow> pyerror option \<times> state" where
  "write_m_file m_file st =
     (if jobs st = [] then (None, py_print ''No jobs found. Use .add_job() to add job.'' st)
      else
        (case sequence (map (job_cells (list_keys st)) (jobs st)) of
           Inl e \<Rightarrow> (Some e, st)
         | Inr _ \<Rightarrow>
             (case str_items (column (jobs st) ''filename'') of
                None \<Rightarrow> (Some TypeError, st\<lparr>fs := (fs st)(m_file \<mapsto> ScriptFile (head_lines st))\<rparr>)
              | Some names \<Rightarrow>
                  (None,
                   py_print (m_file @ '' successfully written.'')
                     (st\<lparr>fs := (fs st)(m_file \<mapsto> ScriptFile
                        (head_lines st @
                         [''filename = ['' @ dq @ join (dq @ '' '' @ dq) names @ dq @ ''];'' @ nl] @
                         map (param_line (jobs st))
                           (filter (\<lambda>par. par \<noteq> ''filename'') (list_keys st)) @
                         seed_lines @ loop_lines))\<rparr>)))))"



subsection \<open>\<^verbatim>\<open>load_job_params\<close>\<close>

text \<open>
  \<^verbatim>\<open>csv.DictReader\<close>: the first row is the header (\<^verbatim>\<open>fieldnames\<close> is \<^verbatim>\<open>None\<close> for a file
  with no row, and \<^verbatim>\<open>set(None)\<close> raises); empty rows are skipped; a row is zipped with the
  header, surplus cells go under the key \<^verbatim>\<open>None\<close> as a list, missing cells are \<^verbatim>\<open>None\<close>.
\<close>

definition row_dict :: "string list \<Rightarrow> string list \<Rightarrow> pdict" where
  "row_dict hdr row =
     (let d = foldl (\<lambda>d kv. dict_set d (Some (fst kv)) (PStr (snd kv))) [] (zip hdr row)
      in if length hdr < length row then
           dict_set d None (PList (map PStr (drop (length hdr) row)))
         else foldl (\<lambda>d k. dict_set d (Some k) PNone) d (drop (length row) hdr))"

fun add_rows :: "string list \<Rightarrow> string list list \<Rightarrow> state \<Rightarrow> pyerror option \<times> state" where
  "add_rows hdr [] st = (None, st)"
| "add_rows hdr (row # rows) st =
     (if row = [] then add_rows hdr rows st
      else (case add_job (row_dict hdr row) st of
              (Some e, st') \<Rightarrow> (Some e, st')
            | (None, st') \<Rightarrow> add_rows hdr rows st'))"

definition set_repr :: "string list \<Rightarrow> string" where
  \<comment> \<open>\<^verbatim>\<open>str\<close> of a non-empty set of strings, in iteration order\<close>
  "set_repr xs = ''{'' @ join '', '' (map str_repr xs) @ ''}''"

definition load_job_params :: "string \<Rightarrow> state \<Rightarrow> pyerror option \<times> state" where
  "load_job_params import_params st =
     (case fs st import_params of
        None \<Rightarrow> (None, py_print (import_params @ '' not found.'') st)
      | Some (CsvFile rows) \<Rightarrow>
          (case rows of
             [] \<Rightarrow> (Some TypeError, st)
           | hdr # rest \<Rightarrow>
               if set hdr \<noteq> set (params st) then
                 (None,
                  py_print (''Please check the header row in '' @ import_params @
                            '', it must include all elements of '' @ set_repr (params st) @ ''.'')
                    st)
               else
                 (case add_rows hdr rest st of
                    (Some e, st') \<Rightarrow> (Some e, st')
                  | (None, st') \<Rightarrow>
                      (None,
                       py_print (import_params @ '' loaded to the job list. '' @
                                 ''You can proceed to write_m_file() and run_jobs(). '' @
                                 ''Remember to clean the '' @ import_params @ ''.'')
                         st')))
      | Some _ \<Rightarrow> (Some DecodeError, st))"

subsection \<open>\<^verbatim>\<open>update_VfAfl\<close>\<close>

definition loadmat :: "state \<Rightarrow> string \<Rightarrow> string \<Rightarrow> pyerror + ndarray" where
  \<comment> \<open>\<^verbatim>\<open>loadmat(path)[name]\<close>\<close>
  "loadmat st path name =
     (case fs st path of
        None \<Rightarrow> Inl FileNotFoundError
      | Some (MatFile vars) \<Rightarrow>
          (case map_of vars name of None \<Rightarrow> Inl KeyError | Some a \<Rightarrow> Inr a)
      | Some _ \<Rightarrow> Inl ValueError)"

fun enrich :: "string list \<Rightarrow> state \<Rightarrow> pyerror option \<times> state" where
  "enrich [] st = (None, st)"
| "enrich (filename # rest) st =
     (case loadmat st (data_dir st @ ''/VfAfl_'' @ filename) ''VfAfl'' of
        Inl e \<Rightarrow> (Some e, st)
      | Inr a \<Rightarrow>
          (case map_of (params_filename st) filename of
             None \<Rightarrow> (Some KeyError, st)
           | Some p \<Rightarrow>
               enrich rest
                 (st\<lparr>params_filename :=
                       dict_set (params_filename st) filename
                         (dict_set p (Some ''VfAfl'') (PList (tolist a)))\<rparr>)))"

definition update_VfAfl :: "state \<Rightarrow> pyerror option \<times> state" where
  "update_VfAfl st =
     (case enrich (map fst (params_filename st)) st of
        (Some e, st') \<Rightarrow> (Some e, st')
      | (None, st') \<Rightarrow> (None, write_json st'))"

subsection \<open>\<^verbatim>\<open>remove_duplicates\<close>\<close>

text \<open>
  \<open>all_ms\<close> maps the bytes of a microstructure to the files that hold it, \<open>has_dup\<close>
  collects the bytes met more than once. \<open>has_dup\<close> is a Python set: the order in which
  the second loop visits it is not fixed, and is the parameter \<open>set_iter\<close> here.
  \<^verbatim>\<open>list.sort(key=...)\<close> computes every key first (the first exception is raised and the
  list is left as it was), then sorts stably using \<^verbatim>\<open><\<close> alone; it is modelled by
  insertion from the right, which is what any stable sort gives when the keys hold no
  \<^verbatim>\<open>nan\<close>, and what Python gives on two elements in every case.
\<close>

fun group_ms ::
  "string list \<Rightarrow> state \<Rightarrow> (string \<times> string list) list \<Rightarrow> string list \<Rightarrow>
   pyerror + (string \<times> string list) list \<times> string list" where
  "group_ms [] st all_ms has_dup = Inr (all_ms, has_dup)"
| "group_ms (matfile # rest) st all_ms has_dup =
     (case loadmat st (data_dir st @ ''/'' @ matfile) ''MS'' of
        Inl e \<Rightarrow> Inl e
      | Inr a \<Rightarrow>
          (let ms = tobytes a;
               files = (case map_of all_ms ms of None \<Rightarrow> [] | Some fl \<Rightarrow> fl) @ [matfile]
           in group_ms rest st (dict_set all_ms ms files)
                (if 1 < length files \<and> ms \<notin> set has_dup then has_dup @ [ms] else has_dup)))"

definition vf_free :: "ledger \<Rightarrow> string \<Rightarrow> pyerror + pyfloat" where
  \<comment> \<open>\<^verbatim>\<open>float(self.params_filename[x]['VfFree'])\<close>\<close>
  "vf_free l x =
     (case map_of l x of None \<Rightarrow> Inl KeyError | Some p \<Rightarrow> coerce_float p ''VfFree'')"

fun insert_key :: "pyfloat \<times> 'a \<Rightarrow> (pyfloat \<times> 'a) list \<Rightarrow> (pyfloat \<times> 'a) list" where
  "insert_key x [] = [x]"
| "insert_key x (y # ys) = (if float_lt (fst y) (fst x) then y # insert_key x ys else x # y # ys)"

fun sort_pairs :: "(pyfloat \<times> 'a) list \<Rightarrow> (pyfloat \<times> 'a) list" where
  "sort_pairs [] = []"
| "sort_pairs (x # xs) = insert_key x (sort_pairs xs)"

fun delete_all :: "string list \<Rightarrow> state \<Rightarrow> pyerror option \<times> state" where
  "delete_all [] st = (None, st)"
| "delete_all (mat # rest) st =
     (if map_of (params_filename st) mat = None then (Some KeyError, st)
      else delete_all rest
             (py_print (''removed from json: '' @ data_dir st @ ''/'' @ mat)
                (st\<lparr>params_filename := dict_del (params_filename st) mat\<rparr>)))"

fun prune :: "string list \<Rightarrow> (string \<times> string list) list \<Rightarrow> state \<Rightarrow> pyerror option \<times> state" where
  "prune [] all_ms st = (None, st)"
| "prune (ms # rest) all_ms st =
     (case map_of all_ms ms of
        None \<Rightarrow> (Some KeyError, st)
      | Some files \<Rightarrow>
          (case sequence (map (vf_free (params_filename st)) files) of
             Inl e \<Rightarrow> (Some e, st)
           | Inr ks \<Rightarrow>
               (case delete_all (drop 1 (map snd (sort_pairs (zip ks files)))) st of
                  (Some e, st') \<Rightarrow> (Some e, st')
                | (None, st') \<Rightarrow> prune rest all_ms st')))"

definition remove_duplicates :: "(string list \<Rightarrow> string list) \<Rightarrow> state \<Rightarrow> pyerror option \<times> state" where
  "remove_duplicates set_iter st =
     (case group_ms (map fst (params_filename st)) st [] [] of
        Inl e \<Rightarrow> (Some e, st)
      | Inr (all_ms, has_dup) \<Rightarrow>
          (case prune (set_iter has_dup) all_ms
                  (py_print (nat_str (length has_dup) @ '' microstructures has duplicates in '' @
                             data_dir st @ ''.'') st) of
             (Some e, st') \<Rightarrow> (Some e, st')
           | (None, st') \<Rightarrow> (None, write_json st')))"

subsection \<open>The fields the name encodes\<close>

definition int_fields :: "string list" where
  "int_fields = [''ParRu'', ''ParRv'', ''pix'', ''NumAgl'', ''scale'', ''seed'']"

definition float_fields :: "string list" where
  "float_fields = [''VfAglm'', ''VfFree'']"

section \<open>Example inputs\<close>

text \<open>
  The parameter set of the end-to-end example, as a caller writes it with number
  literals, the name expected for it, and the object that \<^verbatim>\<open>microstructure_gen()\<close> builds
  in an empty directory.
\<close>

definition example_params :: pdict where
  "example_params =
     [(Some ''ParRu'', PInt 8), (Some ''ParRv'', PFloat (dec_double False 15 (- 1))),
      (Some ''pix'', PInt 400), (Some ''NumAgl'', PInt 1),
      (Some ''VfAglm'', PFloat (dec_double False 1 (- 1))),
      (Some ''VfFree'', PFloat (dec_double False 2 (- 2))),
      (Some ''scale'', PInt 1), (Some ''seed'', PInt 7)]"

definition example_name :: string where
  "example_name = ''8_1_400_1_0.1_0.02_1_7.mat''"

definition fresh_state :: state where
  "fresh_state =
     \<lparr>jobs = [], params = required_params, params_filename = [],
      json_file = ''params_mat.json'', data_dir = ''./data'',
      fs = [''./data'' \<mapsto> Dir], stdout = []\<rparr>"

text \<open>The same parameter set as a row of a descriptor file gives it: every value a string.\<close>

definition example_row :: pdict where
  "example_row =
     [(Some ''ParRu'', PStr ''8''), (Some ''ParRv'', PStr ''1.5''), (Some ''pix'', PStr ''400''),
      (Some ''NumAgl'', PStr ''1''), (Some ''VfAglm'', PStr ''0.1''),
      (Some ''VfFree'', PStr ''0.02''), (Some ''scale'', PStr ''1''), (Some ''seed'', PStr ''7'')]"

text \<open>A descriptor file whose header lacks the column \<open>seed\<close>.\<close>

definition bad_csv :: "string list list" where
  "bad_csv =
     [[''ParRu'', ''ParRv'', ''pix'', ''NumAgl'', ''VfAglm'', ''VfFree'', ''scale''],
      [''8'', ''1.5'', ''400'', ''1'', ''0.1'', ''0.02'', ''1'']]"

text \<open>A ledger with the example as its one entry, in a data directory that holds no file.\<close>

definition lone_state :: state where
  "lone_state = fresh_state\<lparr>params_filename := [(example_name, example_params)]\<rparr>"

text \<open>
  Three ledger entries: the example with \<open>VfFree\<close> 0.05, the example itself, and the
  example with seed 8. The artifacts of the first two have the same bytes.
\<close>

definition name_a :: string where
  "name_a = ''8_1_400_1_0.1_0.05_1_7.mat''"

definition name_c :: string where
  "name_c = ''8_1_400_1_0.1_0.02_1_8.mat''"

definition params_a :: pdict where
  "params_a = dict_set example_params (Some ''VfFree'') (PFloat (dec_double False 5 (- 2)))"

definition params_c :: pdict where
  "params_c = dict_set example_params (Some ''seed'') (PInt 8)"

definition dup_state :: state where
  "dup_state =
     fresh_state
       \<lparr>params_filename := [(name_a, params_a), (example_name, example_params), (name_c, params_c)],
        fs := [''./data'' \<mapsto> Dir,
               ''./data/'' @ name_a \<mapsto> MatFile [(''MS'', NDArray ''0110'' [])],
               ''./data/'' @ example_name \<mapsto> MatFile [(''MS'', NDArray ''0110'' [])],
               ''./data/'' @ name_c \<mapsto> MatFile [(''MS'', NDArray ''1001'' [])]]\<rparr>"

text \<open>
  A descriptor file with the right header and one row that has a ninth cell, the object
  that finds it, and the parameter set \<^verbatim>\<open>csv.DictReader\<close> makes of the row.
\<close>

definition surplus_csv :: "string list list" where
  "surplus_csv =
     [[''ParRu'', ''ParRv'', ''pix'', ''NumAgl'', ''VfAglm'', ''VfFree'', ''scale'', ''seed''],
      [''8'', ''1.5'', ''400'', ''1'', ''0.1'', ''0.02'', ''1'', ''7'', ''x'']]"

definition surplus_state :: state where
  "surplus_state = fresh_state\<lparr>fs := (fs fresh_state)(''batch_jobs.csv'' \<mapsto> CsvFile surplus_csv)\<rparr>"

definition surplus_row :: pdict where
  "surplus_row = example_row @ [(None, PList [PStr ''x''])]"


section \<open>Evaluation rules\<close>

lemmas float_eval = round_double_def round_pos_def ilog_def round_half_even_def Let_def
  ndigits.simps dec_double_def scaled_def candidates_def shortest.simps pos_repr_def
  layout_def exp_str_def nat_str.simps digit_char_def int_str_def reads_back_def

lemmas parse_eval = is_space_def strip_def lower_def digit_val_def is_digit_def in_run_def
  split_sign_def parse_exponent_def parse_decimal_def parse_float_def

lemmas name_eval = generate_mat_name_def fmt_int_def fmt_float_def coerce_int_def
  coerce_float_def getitem_def

section \<open>Dictionaries\<close>

lemma map_of_dict_set: "map_of (dict_set d k v) = (map_of d)(k \<mapsto> v)"
  by (induction d) (auto simp: fun_eq_iff)

lemma dict_set_keys: "k \<in> fst ` set d \<Longrightarrow> map fst (dict_set d k v) = map fst d"
  by (induction d) force+

lemma dict_set_new: "k \<notin> fst ` set d \<Longrightarrow> dict_set d k v = d @ [(k, v)]"
  by (induction d) auto

section \<open>The end-to-end admission example\<close>

lemma example_name_eval: "generate_mat_name example_params = Inr example_name"
  by (simp add: example_params_def example_name_def name_eval float_eval split del: if_split)

lemma example_complete: "par \<in> set required_params \<Longrightarrow> \<not> missing example_params par"
  by (auto simp: required_params_def missing_def example_params_def)

lemma find_missing_example:
  "set (params st) \<subseteq> set required_params \<Longrightarrow> find (missing example_params) (params st) = None"
  by (auto simp: find_None_iff dest: example_complete)

lemma init_fresh: "init ''params_mat.json'' ''./data'' Map.empty [] = Inr fresh_state"
  by (simp add: init_def fresh_state_def)

text \<open>
  Claim C2. The parameter set \<^verbatim>\<open>{ParRu:8, ParRv:1.5, pix:400, NumAgl:1, VfAglm:0.1,
  VfFree:0.02, scale:1, seed:7}\<close> is named \<^verbatim>\<open>8_1_400_1_0.1_0.02_1_7.mat\<close>, and \<open>add_job\<close>
  returns normally having stored the parameter set under exactly that key of the ledger,
  written the ledger to the ledger file and appended the job; this holds in every state
  whose \<open>params\<close> is the set of the eight required fields.
\<close>

theorem add_job_example:
  assumes "set (params st) = set required_params"
  shows "generate_mat_name example_params = Inr ''8_1_400_1_0.1_0.02_1_7.mat'' \<and>
         add_job example_params st =
           (None, st\<lparr>params_filename :=
                        dict_set (params_filename st) ''8_1_400_1_0.1_0.02_1_7.mat'' example_params,
                      fs := (fs st)(json_file st \<mapsto> JsonFile (json_dump
                        (dict_set (params_filename st) ''8_1_400_1_0.1_0.02_1_7.mat''
                           example_params))),
                      jobs := jobs st @
                        [dict_set example_params (Some ''filename'')
                           (PStr ''8_1_400_1_0.1_0.02_1_7.mat'')]\<rparr>) \<and>
         map_of (params_filename (snd (add_job example_params st)))
           ''8_1_400_1_0.1_0.02_1_7.mat'' = Some example_params"
proof -
  have n: "generate_mat_name example_params = Inr ''8_1_400_1_0.1_0.02_1_7.mat''"
    using example_name_eval by (simp add: example_name_def)
  have f: "find (missing example_params) (params st) = None"
    using assms by (simp add: find_missing_example)
  show ?thesis
    by (simp add: n f add_job_def update_params_filename_def write_json_def Let_def
        map_of_dict_set)
qed

text \<open>
  The example on the object built in an empty directory: the ledger and the ledger file
  then hold the one entry.
\<close>

theorem add_job_example_witness:
  "init ''params_mat.json'' ''./data'' Map.empty [] = Inr fresh_state \<and>
   params_filename (snd (add_job example_params fresh_state)) =
     [(''8_1_400_1_0.1_0.02_1_7.mat'', example_params)] \<and>
   fs (snd (add_job example_params fresh_state)) ''params_mat.json'' =
     Some (JsonFile [(''8_1_400_1_0.1_0.02_1_7.mat'', dump_params example_params)])"
proof -
  have "set (params fresh_state) = set required_params"
    by (simp add: fresh_state_def)
  from add_job_example [OF this] show ?thesis
    by (simp add: init_fresh) (simp add: fresh_state_def json_dump_def)
qed

section \<open>Admission\<close>

lemma add_job_success:
  assumes "find (missing p) (params st) = None" and "generate_mat_name p = Inr f"
  shows "add_job p st =
           (None, st\<lparr>params_filename := dict_set (params_filename st) f p,
                      fs := (fs st)(json_file st \<mapsto>
                              JsonFile (json_dump (dict_set (params_filename st) f p))),
                      jobs := jobs st @ [dict_set p (Some ''filename'') (PStr f)]\<rparr>)"
  using assms
  by (simp add: add_job_def update_params_filename_def write_json_def Let_def)

text \<open>
  Claim C3. When the candidate parameter dictionary lacks one of the required fields,
  \<open>add_job\<close> returns normally having printed a message that names a missing field, and
  nothing else has changed: not the ledger, not the job list, not the file system (so not
  the ledger file).
\<close>

theorem add_job_missing_field:
  assumes "set (params st) = set required_params"
    and "\<exists>par \<in> set required_params. missing p par"
  shows "\<exists>par \<in> set required_params. missing p par \<and>
           add_job p st =
             (None, st\<lparr>stdout := stdout st @ [''Please specify '' @ par @ '' in params. Abort.'']\<rparr>) \<and>
           params_filename (snd (add_job p st)) = params_filename st \<and>
           jobs (snd (add_job p st)) = jobs st \<and>
           fs (snd (add_job p st)) = fs st"
proof -
  from assms obtain q where "q \<in> set (params st)" "missing p q"
    by auto
  then have "find (missing p) (params st) \<noteq> None"
    by (auto simp: find_None_iff)
  then obtain par where f: "find (missing p) (params st) = Some par"
    by auto
  then have "par \<in> set (params st)" "missing p par"
    by (auto simp: find_Some_iff)
  with assms(1) f show ?thesis
    by (auto simp: add_job_def py_print_def)
qed

lemma no_seed_missing: "missing (butlast example_params) ''seed''"
  by (simp add: missing_def example_params_def)

text \<open>The example parameter set without its last field, \<open>seed\<close>.\<close>

theorem add_job_missing_field_witness:
  "add_job (butlast example_params) fresh_state =
     (None, fresh_state\<lparr>stdout := [''Please specify seed in params. Abort.'']\<rparr>)"
proof -
  have 1: "set (params fresh_state) = set required_params"
    by (simp add: fresh_state_def)
  have 2: "\<exists>par \<in> set required_params. missing (butlast example_params) par"
    using no_seed_missing by (auto simp: required_params_def)
  have 3: "\<not> missing (butlast example_params) par" if "par \<in> set required_params" "par \<noteq> ''seed''" for par
    using that by (auto simp: required_params_def missing_def example_params_def)
  from add_job_missing_field [OF 1 2] obtain par where
    p: "par \<in> set required_params" "missing (butlast example_params) par"
    and a: "add_job (butlast example_params) fresh_state =
             (None, fresh_state\<lparr>stdout := stdout fresh_state @
                [''Please specify '' @ par @ '' in params. Abort.'']\<rparr>)"
    by blast
  from p 3 have "par = ''seed''"
    by blast
  with a show ?thesis
    by (simp add: fresh_state_def)
qed

section \<open>Overwrite and rewrite\<close>

text \<open>
  Claim C5. Two successful admissions whose parameter sets are given the same file name
  \<open>f\<close>: both return normally, after the second the ledger holds the second parameter
  set under \<open>f\<close>, with the same keys in the same order and every other entry as it was,
  nothing is printed, and after each admission the ledger file holds the serialization
  of the whole ledger.
\<close>

theorem admission_overwrites_and_rewrites:
  assumes "\<forall>par \<in> set (params st). \<not> missing p1 par \<and> \<not> missing p2 par"
    and "generate_mat_name p1 = Inr f" and "generate_mat_name p2 = Inr f"
    and "add_job p1 st = (r1, s1)" and "add_job p2 s1 = (r2, s2)"
  shows "r1 = None \<and> r2 = None \<and>
         map_of (params_filename s1) f = Some p1 \<and>
         map_of (params_filename s2) f = Some p2 \<and>
         map fst (params_filename s2) = map fst (params_filename s1) \<and>
         (\<forall>g. g \<noteq> f \<longrightarrow> map_of (params_filename s2) g = map_of (params_filename s1) g) \<and>
         stdout s2 = stdout st \<and>
         fs s1 (json_file st) = Some (JsonFile (json_dump (params_filename s1))) \<and>
         fs s2 (json_file st) = Some (JsonFile (json_dump (params_filename s2)))"
proof -
  have m1: "find (missing p1) (params st) = None" and m2: "find (missing p2) (params st) = None"
    using assms(1) by (auto simp: find_None_iff)
  have a1: "(r1, s1) =
      (None, st\<lparr>params_filename := dict_set (params_filename st) f p1,
                 fs := (fs st)(json_file st \<mapsto>
                         JsonFile (json_dump (dict_set (params_filename st) f p1))),
                 jobs := jobs st @ [dict_set p1 (Some ''filename'') (PStr f)]\<rparr>)"
    using add_job_success [OF m1 assms(2)] assms(4) by simp
  then have s1: "params s1 = params st" "json_file s1 = json_file st" "stdout s1 = stdout st"
    "params_filename s1 = dict_set (params_filename st) f p1" "r1 = None"
    "fs s1 (json_file st) = Some (JsonFile (json_dump (params_filename s1)))"
    by auto
  have m2': "find (missing p2) (params s1) = None"
    using m2 s1 by simp
  have a2: "(r2, s2) =
      (None, s1\<lparr>params_filename := dict_set (params_filename s1) f p2,
                 fs := (fs s1)(json_file s1 \<mapsto>
                         JsonFile (json_dump (dict_set (params_filename s1) f p2))),
                 jobs := jobs s1 @ [dict_set p2 (Some ''filename'') (PStr f)]\<rparr>)"
    using add_job_success [OF m2' assms(3)] assms(5) by simp
  then have s2: "stdout s2 = stdout s1" "r2 = None"
    "params_filename s2 = dict_set (params_filename s1) f p2"
    "fs s2 (json_file st) = Some (JsonFile (json_dump (params_filename s2)))"
    using s1(2) by auto
  have k: "f \<in> fst ` set (params_filename s1)"
    using s1(4) by (metis map_of_dict_set fun_upd_same map_of_eq_None_iff option.distinct(1))
  show ?thesis
    using s1 s2 k by (simp add: map_of_dict_set dict_set_keys)
qed

lemma example_row_name_eval: "generate_mat_name example_row = Inr example_name"
  by (simp add: example_row_def example_name_def name_eval float_eval parse_eval
      split del: if_split)

lemma example_row_complete: "par \<in> set required_params \<Longrightarrow> \<not> missing example_row par"
  by (auto simp: required_params_def missing_def example_row_def)

text \<open>
  The example admitted as numbers, then as the strings of a descriptor row: the same
  name, and the second record replaces the first.
\<close>

theorem admission_overwrites_and_rewrites_witness:
  "params_filename (snd (add_job example_params fresh_state)) = [(example_name, example_params)] \<and>
   params_filename (snd (add_job example_row (snd (add_job example_params fresh_state)))) =
     [(example_name, example_row)] \<and>
   stdout (snd (add_job example_row (snd (add_job example_params fresh_state)))) = [] \<and>
   fs (snd (add_job example_row (snd (add_job example_params fresh_state)))) ''params_mat.json'' =
     Some (JsonFile [(example_name, dump_params example_row)])"
proof -
  let ?s1 = "snd (add_job example_params fresh_state)"
  let ?s2 = "snd (add_job example_row ?s1)"
  have h: "\<forall>par \<in> set (params fresh_state). \<not> missing example_params par \<and> \<not> missing example_row par"
    by (simp add: fresh_state_def example_complete example_row_complete)
  have m: "find (missing example_params) (params fresh_state) = None"
    using h by (auto simp: find_None_iff)
  have l1: "params_filename ?s1 = [(example_name, example_params)]"
    by (simp add: add_job_success [OF m example_name_eval]) (simp add: fresh_state_def)
  from admission_overwrites_and_rewrites [OF h example_name_eval example_row_name_eval
      surjective_pairing surjective_pairing]
  have "map_of (params_filename ?s2) example_name = Some example_row"
    and "map fst (params_filename ?s2) = map fst (params_filename ?s1)"
    and "stdout ?s2 = stdout fresh_state"
    and "fs ?s2 (json_file fresh_state) = Some (JsonFile (json_dump (params_filename ?s2)))"
    by blast+
  moreover from this(1,2) l1 have "params_filename ?s2 = [(example_name, example_row)]"
    by (cases "params_filename ?s2") (auto split: if_splits)
  ultimately show ?thesis
    using l1 by (simp add: fresh_state_def json_dump_def)
qed

section \<open>Determinism of the name\<close>

text \<open>
  Claim C8. Two parameter dictionaries whose six truncated fields give the same result of
  \<^verbatim>\<open>int(float(...))\<close> and whose two float fields give the same result of \<^verbatim>\<open>float(...)\<close>
  are given the same file name, whatever the types of the values they hold.
\<close>

theorem generate_mat_name_deterministic:
  assumes "\<forall>k \<in> set int_fields. coerce_int p k = coerce_int q k"
    and "\<forall>k \<in> set float_fields. coerce_float p k = coerce_float q k"
  shows "generate_mat_name p = generate_mat_name q"
  using assms by (simp add: generate_mat_name_def fmt_int_def fmt_float_def int_fields_def
      float_fields_def)

lemma coerce_example_row:
  "coerce_int example_row ''ParRu'' = Inr 8" "coerce_int example_row ''ParRv'' = Inr 1"
  "coerce_int example_row ''pix'' = Inr 400" "coerce_int example_row ''NumAgl'' = Inr 1"
  "coerce_int example_row ''scale'' = Inr 1" "coerce_int example_row ''seed'' = Inr 7"
  "coerce_float example_row ''VfAglm'' = Inr (dec_double False 1 (- 1))"
  "coerce_float example_row ''VfFree'' = Inr (dec_double False 2 (- 2))"
  by (simp_all add: example_row_def coerce_int_def coerce_float_def getitem_def float_eval
      parse_eval split del: if_split)

lemma coerce_example_params:
  "coerce_int example_params ''ParRu'' = Inr 8" "coerce_int example_params ''ParRv'' = Inr 1"
  "coerce_int example_params ''pix'' = Inr 400" "coerce_int example_params ''NumAgl'' = Inr 1"
  "coerce_int example_params ''scale'' = Inr 1" "coerce_int example_params ''seed'' = Inr 7"
  "coerce_float example_params ''VfAglm'' = Inr (dec_double False 1 (- 1))"
  "coerce_float example_params ''VfFree'' = Inr (dec_double False 2 (- 2))"
  by (simp_all add: example_params_def coerce_int_def coerce_float_def getitem_def float_eval
      split del: if_split)

text \<open>The example given once as strings and once as numbers.\<close>

theorem generate_mat_name_deterministic_witness:
  "example_row \<noteq> example_params \<and>
   generate_mat_name example_row = generate_mat_name example_params \<and>
   generate_mat_name example_params = Inr ''8_1_400_1_0.1_0.02_1_7.mat''"
proof -
  have 1: "\<forall>k \<in> set int_fields. coerce_int example_row k = coerce_int example_params k"
    by (simp add: int_fields_def coerce_example_row coerce_example_params)
  have 2: "\<forall>k \<in> set float_fields. coerce_float example_row k = coerce_float example_params k"
    by (simp add: float_fields_def coerce_example_row coerce_example_params)
  have 3: "example_row \<noteq> example_params"
    by (simp add: example_row_def example_params_def)
  from generate_mat_name_deterministic [OF 1 2] 3 example_name_eval show ?thesis
    by (simp add: example_name_def)
qed

section \<open>Loading a descriptor file\<close>

text \<open>
  Claim C4. When the header row of the descriptor file, as a set of column names, is not
  the set of the eight required fields, \<open>load_job_params\<close> prints the diagnostic and
  returns normally; no row is admitted: the job list, the ledger and the file system are
  as before.
\<close>

theorem load_job_params_bad_header:
  assumes "fs st import_params = Some (CsvFile (hdr # rows))"
    and "set hdr \<noteq> set required_params"
    and "set (params st) = set required_params"
  shows "load_job_params import_params st =
           (None, st\<lparr>stdout := stdout st @
              [''Please check the header row in '' @ import_params @
               '', it must include all elements of '' @ set_repr (params st) @ ''.'']\<rparr>) \<and>
         jobs (snd (load_job_params import_params st)) = jobs st \<and>
         params_filename (snd (load_job_params import_params st)) = params_filename st \<and>
         fs (snd (load_job_params import_params st)) = fs st"
  using assms by (simp add: load_job_params_def py_print_def)

text \<open>A header of seven columns followed by one row.\<close>

theorem load_job_params_bad_header_witness:
  "jobs (snd (load_job_params ''batch_jobs.csv''
      (fresh_state\<lparr>fs := (fs fresh_state)(''batch_jobs.csv'' \<mapsto> CsvFile bad_csv)\<rparr>))) = [] \<and>
   params_filename (snd (load_job_params ''batch_jobs.csv''
      (fresh_state\<lparr>fs := (fs fresh_state)(''batch_jobs.csv'' \<mapsto> CsvFile bad_csv)\<rparr>))) = [] \<and>
   fst (load_job_params ''batch_jobs.csv''
      (fresh_state\<lparr>fs := (fs fresh_state)(''batch_jobs.csv'' \<mapsto> CsvFile bad_csv)\<rparr>)) = None"
proof -
  let ?st = "fresh_state\<lparr>fs := (fs fresh_state)(''batch_jobs.csv'' \<mapsto> CsvFile bad_csv)\<rparr>"
  have 1: "fs ?st ''batch_jobs.csv'' = Some (CsvFile (hd bad_csv # tl bad_csv))"
    by (simp add: bad_csv_def)
  have "''seed'' \<in> set required_params" "''seed'' \<notin> set (hd bad_csv)"
    by (simp_all add: bad_csv_def required_params_def)
  then have 2: "set (hd bad_csv) \<noteq> set required_params"
    by blast
  have 3: "set (params ?st) = set required_params"
    by (simp add: fresh_state_def)
  from load_job_params_bad_header [OF 1 2 3]
  have "fst (load_job_params ''batch_jobs.csv'' ?st) = None"
    and "jobs (snd (load_job_params ''batch_jobs.csv'' ?st)) = jobs ?st"
    and "params_filename (snd (load_job_params ''batch_jobs.csv'' ?st)) = params_filename ?st"
    by simp_all
  then show ?thesis
    by (simp add: fresh_state_def)
qed

section \<open>Enrichment\<close>

lemma enrich_frame:
  "enrich ks st = (r, st') \<Longrightarrow>
     fs st' = fs st \<and> data_dir st' = data_dir st \<and> json_file st' = json_file st \<and>
     jobs st' = jobs st \<and> stdout st' = stdout st"
proof (induction ks arbitrary: st)
  case Nil
  then show ?case by simp
next
  case (Cons k ks)
  then show ?case
    by (auto split: sum.splits option.splits)
qed

lemma enrich_missing:
  assumes "filename \<in> set ks"
    and "fs st (data_dir st @ ''/VfAfl_'' @ filename) = None"
  shows "\<exists>e st'. enrich ks st = (Some e, st') \<and>
           map_of (params_filename st') filename = map_of (params_filename st) filename"
  using assms
proof (induction ks arbitrary: st)
  case Nil
  then show ?case by simp
next
  case (Cons k ks)
  show ?case
  proof (cases "k = filename")
    case True
    with Cons.prems show ?thesis
      by (simp add: loadmat_def)
  next
    case False
    with Cons.prems have in_ks: "filename \<in> set ks"
      by simp
    show ?thesis
    proof (cases "loadmat st (data_dir st @ ''/VfAfl_'' @ k) ''VfAfl''")
      case (Inl e)
      then show ?thesis by simp
    next
      case (Inr a)
      show ?thesis
      proof (cases "map_of (params_filename st) k")
        case None
        with Inr show ?thesis by simp
      next
        case (Some p)
        let ?st = "st\<lparr>params_filename := dict_set (params_filename st) k
                     (dict_set p (Some ''VfAfl'') (PList (tolist a)))\<rparr>"
        have "fs ?st (data_dir ?st @ ''/VfAfl_'' @ filename) = None"
          using Cons.prems by simp
        from Cons.IH [OF in_ks this] obtain e st' where
          "enrich ks ?st = (Some e, st')"
          "map_of (params_filename st') filename = map_of (params_filename ?st) filename"
          by blast
        with Inr Some False show ?thesis
          by (simp add: map_of_dict_set)
      qed
    qed
  qed
qed

text \<open>
  Claim C7, as amended. When the companion file \<^verbatim>\<open>VfAfl_<filename>\<close> of a ledger entry is
  missing from the data directory, \<open>update_VfAfl\<close> raises: the exception of \<^verbatim>\<open>loadmat\<close> is
  not caught. Nothing is written (the file system, so the ledger file, is as before), and
  the entry is left as it was, without the enrichment.
\<close>

theorem update_VfAfl_missing_companion:
  assumes "map_of (params_filename st) filename = Some p"
    and "fs st (data_dir st @ ''/VfAfl_'' @ filename) = None"
  shows "\<exists>e st'. update_VfAfl st = (Some e, st') \<and> fs st' = fs st \<and>
           map_of (params_filename st') filename = Some p"
proof -
  have "filename \<in> set (map fst (params_filename st))"
    using assms(1) by (metis map_of_eq_None_iff option.distinct(1) set_map)
  from enrich_missing [OF this assms(2)] obtain e st' where
    e: "enrich (map fst (params_filename st)) st = (Some e, st')"
    and "map_of (params_filename st') filename = map_of (params_filename st) filename"
    by blast
  moreover from enrich_frame [OF e] have "fs st' = fs st"
    by simp
  ultimately show ?thesis
    using assms(1) by (simp add: update_VfAfl_def)
qed

text \<open>
  Claim C7 as stated fails: with the companion file of the only entry missing, the pass
  does not complete silently, it raises \<^verbatim>\<open>FileNotFoundError\<close>.
\<close>

theorem update_VfAfl_raises:
  "fs lone_state (data_dir lone_state @ ''/VfAfl_'' @ example_name) = None \<and>
   update_VfAfl lone_state = (Some FileNotFoundError, lone_state)"
  by (simp add: update_VfAfl_def lone_state_def fresh_state_def loadmat_def)

text \<open>The amended claim on the same ledger.\<close>

theorem update_VfAfl_missing_companion_witness:
  "\<exists>e st'. update_VfAfl lone_state = (Some e, st') \<and> fs st' = fs lone_state \<and>
     map_of (params_filename st') example_name = Some example_params"
proof -
  have 1: "map_of (params_filename lone_state) example_name = Some example_params"
    by (simp add: lone_state_def)
  have 2: "fs lone_state (data_dir lone_state @ ''/VfAfl_'' @ example_name) = None"
    by (simp add: lone_state_def fresh_state_def)
  from update_VfAfl_missing_companion [OF 1 2] show ?thesis .
qed

section \<open>Duplicate removal only deletes\<close>

lemma filter_del_keys:
  "dict_del (filter (\<lambda>kv. fst kv \<notin> R) l) k = filter (\<lambda>kv. fst kv \<notin> insert k R) l"
  by (induction l) (auto simp: dict_del_def)

lemma map_of_filter_keys:
  "map_of (filter (\<lambda>kv. fst kv \<notin> R) l) k = (if k \<in> R then None else map_of l k)"
  by (induction l) auto

lemma delete_all_only_deletes:
  assumes "delete_all ms st = (r, st')"
    and "\<exists>R. params_filename st = filter (\<lambda>kv. fst kv \<notin> R) l"
  shows "\<exists>R. params_filename st' = filter (\<lambda>kv. fst kv \<notin> R) l"
  using assms
proof (induction ms arbitrary: st)
  case Nil
  then show ?case by simp
next
  case (Cons m ms)
  show ?case
  proof (cases "map_of (params_filename st) m = None")
    case True
    with Cons.prems show ?thesis by simp
  next
    case False
    let ?st = "py_print (''removed from json: '' @ data_dir st @ ''/'' @ m)
                 (st\<lparr>params_filename := dict_del (params_filename st) m\<rparr>)"
    from Cons.prems(2) obtain R where "params_filename st = filter (\<lambda>kv. fst kv \<notin> R) l"
      by blast
    then have "params_filename ?st = filter (\<lambda>kv. fst kv \<notin> insert m R) l"
      by (simp add: py_print_def filter_del_keys)
    then have "\<exists>R. params_filename ?st = filter (\<lambda>kv. fst kv \<notin> R) l"
      by blast
    moreover from False Cons.prems(1) have "delete_all ms ?st = (r, st')"
      by (simp del: not_None_eq)
    ultimately show ?thesis
      by (rule Cons.IH [rotated])
  qed
qed

lemma prune_only_deletes:
  assumes "prune groups all_ms st = (r, st')"
    and "\<exists>R. params_filename st = filter (\<lambda>kv. fst kv \<notin> R) l"
  shows "\<exists>R. params_filename st' = filter (\<lambda>kv. fst kv \<notin> R) l"
  using assms
proof (induction groups arbitrary: st)
  case Nil
  then show ?case by simp
next
  case (Cons ms groups)
  show ?case
  proof (cases "map_of all_ms ms")
    case None
    with Cons.prems show ?thesis by simp
  next
    case (Some files)
    show ?thesis
    proof (cases "sequence (map (vf_free (params_filename st)) files)")
      case (Inl e)
      with Some Cons.prems show ?thesis by simp
    next
      case (Inr ks)
      obtain r1 st1 where
        d: "delete_all (drop 1 (map snd (sort_pairs (zip ks files)))) st = (r1, st1)"
        by (cases "delete_all (drop 1 (map snd (sort_pairs (zip ks files)))) st")
      from delete_all_only_deletes [OF d Cons.prems(2)]
      have inv: "\<exists>R. params_filename st1 = filter (\<lambda>kv. fst kv \<notin> R) l" .
      show ?thesis
      proof (cases r1)
        case None
        with Some Inr d Cons.prems(1) have "prune groups all_ms st1 = (r, st')"
          by simp
        from Cons.IH [OF this inv] show ?thesis .
      next
        case (Some e)
        with \<open>map_of all_ms ms = Some files\<close> Inr d Cons.prems(1) have "st' = st1"
          by simp
        with inv show ?thesis by simp
      qed
    qed
  qed
qed

text \<open>
  Claim C10. Whatever the ledger, the files and the order in which the set of duplicated
  contents is visited, and whether the pass returns or raises, the ledger after
  \<open>remove_duplicates\<close> is the ledger before it with the entries of some file names
  removed: every entry left was there before with the same parameter set, and none is new.
\<close>

theorem remove_duplicates_only_deletes:
  "(\<exists>R. params_filename (snd (remove_duplicates set_iter st)) =
          filter (\<lambda>kv. fst kv \<notin> R) (params_filename st)) \<and>
   set (params_filename (snd (remove_duplicates set_iter st))) \<subseteq> set (params_filename st) \<and>
   map_of (params_filename (snd (remove_duplicates set_iter st))) \<subseteq>\<^sub>m
     map_of (params_filename st)"
proof -
  let ?l = "params_filename st"
  have "\<exists>R. params_filename (snd (remove_duplicates set_iter st)) =
          filter (\<lambda>kv. fst kv \<notin> R) ?l"
  proof (cases "group_ms (map fst ?l) st [] []")
    case (Inl e)
    then have "params_filename (snd (remove_duplicates set_iter st)) = filter (\<lambda>kv. fst kv \<notin> {}) ?l"
      by (simp add: remove_duplicates_def)
    then show ?thesis by blast
  next
    case (Inr g)
    obtain all_ms has_dup where g: "g = (all_ms, has_dup)"
      by (cases g)
    let ?st = "py_print (nat_str (length has_dup) @ '' microstructures has duplicates in '' @
                 data_dir st @ ''.'') st"
    obtain r st' where p: "prune (set_iter has_dup) all_ms ?st = (r, st')"
      by (cases "prune (set_iter has_dup) all_ms ?st")
    have "params_filename ?st = filter (\<lambda>kv. fst kv \<notin> {}) ?l"
      by (simp add: py_print_def)
    then have "\<exists>R. params_filename ?st = filter (\<lambda>kv. fst kv \<notin> R) ?l"
      by blast
    from prune_only_deletes [OF p this] obtain R where
      "params_filename st' = filter (\<lambda>kv. fst kv \<notin> R) ?l"
      by blast
    moreover have "params_filename (snd (remove_duplicates set_iter st)) = params_filename st'"
      using Inr g p by (cases r) (simp_all add: remove_duplicates_def write_json_def)
    ultimately show ?thesis by auto
  qed
  then obtain R where
    R: "params_filename (snd (remove_duplicates set_iter st)) = filter (\<lambda>kv. fst kv \<notin> R) ?l"
    by blast
  have "map_of (filter (\<lambda>kv. fst kv \<notin> R) ?l) \<subseteq>\<^sub>m map_of ?l"
    by (simp add: map_le_def map_of_filter_keys dom_def)
  with R show ?thesis
    by auto
qed

section \<open>Duplicate removal on three files\<close>

lemma float_lt_asym: "float_lt a b \<Longrightarrow> \<not> float_lt b a"
  by (cases a; cases b) (auto simp: min.commute)

lemma three_entries:
  assumes "length l = 3" and "set l = {a, b, c}" and "a \<noteq> b" and "a \<noteq> c" and "b \<noteq> c"
  shows "l \<in> {[a, b, c], [a, c, b], [b, a, c], [b, c, a], [c, a, b], [c, b, a]}"
proof -
  from assms(1) obtain u v w where l: "l = [u, v, w]"
    by (auto simp: numeral_3_eq_3 length_Suc_conv)
  from assms(2) l have s: "{u, v, w} = {a, b, c}"
    by simp
  then have "u \<in> {a, b, c}" "v \<in> {a, b, c}" "w \<in> {a, b, c}"
    by blast+
  moreover from s have "a \<in> {u, v, w}" "b \<in> {u, v, w}" "c \<in> {u, v, w}"
    by blast+
  ultimately show ?thesis
    using assms(3-5) l by auto
qed

lemma set_iter_single:
  assumes "\<forall>xs. distinct xs \<longrightarrow> distinct (set_iter xs) \<and> set (set_iter xs) = set xs"
  shows "set_iter [b] = [b]"
proof -
  have "distinct [b] \<longrightarrow> distinct (set_iter [b]) \<and> set (set_iter [b]) = set [b]"
    using assms by (rule spec)
  then have d: "distinct (set_iter [b])" and s: "set (set_iter [b]) = {b}"
    by simp_all
  show ?thesis
  proof (cases "set_iter [b]")
    case Nil
    with s show ?thesis by simp
  next
    case (Cons u us)
    with s have "u = b" "set us \<subseteq> {b}" by auto
    moreover from d Cons have "u \<notin> set us" by simp
    ultimately have "us = []" by (cases us) auto
    with Cons \<open>u = b\<close> show ?thesis by simp
  qed
qed

lemma remove_duplicates_ordered:
  assumes perm: "params_filename st \<in>
       {[(x, px), (y, py), (z, pz)], [(x, px), (z, pz), (y, py)], [(y, py), (x, px), (z, pz)],
        [(y, py), (z, pz), (x, px)], [(z, pz), (x, px), (y, py)], [(z, pz), (y, py), (x, px)]}"
    and d: "x \<noteq> y" "x \<noteq> z" "y \<noteq> z"
    and mx: "loadmat st (data_dir st @ ''/'' @ x) ''MS'' = Inr ax"
    and my: "loadmat st (data_dir st @ ''/'' @ y) ''MS'' = Inr ay"
    and mz: "loadmat st (data_dir st @ ''/'' @ z) ''MS'' = Inr az"
    and b: "tobytes ax = ms" "tobytes ay = ms" "tobytes az \<noteq> ms"
    and v: "coerce_float px ''VfFree'' = Inr vx" "coerce_float py ''VfFree'' = Inr vy"
    and lt: "float_lt vx vy" "\<not> float_lt vy vx"
    and it: "set_iter [ms] = [ms]"
  shows "remove_duplicates set_iter st =
           (None, st\<lparr>stdout := stdout st @
                        [''1 microstructures has duplicates in '' @ data_dir st @ ''.'',
                         ''removed from json: '' @ data_dir st @ ''/'' @ y],
                      params_filename := dict_del (params_filename st) y,
                      fs := (fs st)(json_file st \<mapsto>
                              JsonFile (json_dump (dict_del (params_filename st) y)))\<rparr>)"
  using perm
  apply (elim insertE emptyE)
  using d mx my mz b v lt it
       apply (simp_all add: remove_duplicates_def vf_free_def Let_def py_print_def write_json_def
      dict_del_def nat_str.simps digit_char_def)
  done

lemma dict_del_three:
  assumes "l \<in>
       {[(x, px), (y, py), (z, pz)], [(x, px), (z, pz), (y, py)], [(y, py), (x, px), (z, pz)],
        [(y, py), (z, pz), (x, px)], [(z, pz), (x, px), (y, py)], [(z, pz), (y, py), (x, px)]}"
    and "x \<noteq> y" "x \<noteq> z" "y \<noteq> z"
  shows "set (dict_del l y) = {(x, px), (z, pz)} \<and>
         map_of (dict_del l y) x = Some px \<and>
         map_of (dict_del l y) z = Some pz \<and>
         map_of (dict_del l y) y = None"
  using assms(1)
  apply (elim insertE emptyE)
  using assms(2-4)
       apply (simp_all add: dict_del_def insert_commute)
  done

text \<open>
  Claim C1. A ledger of three entries \<open>x\<close>, \<open>y\<close>, \<open>z\<close> in any order, where the artifacts
  of \<open>x\<close> and \<open>y\<close> have the same bytes and that of \<open>z\<close> has others, and the \<open>VfFree\<close>
  of \<open>y\<close> is the larger: \<open>remove_duplicates\<close> returns normally, the ledger has lost
  exactly the entry \<open>y\<close> and keeps \<open>x\<close> and \<open>z\<close> with their parameter sets, and the
  ledger file holds the pruned ledger. The order in which the set \<open>has_dup\<close> is
  visited is any.
\<close>

theorem remove_duplicates_three_files:
  assumes "length (params_filename st) = 3"
    and "set (params_filename st) = {(x, px), (y, py), (z, pz)}"
    and "x \<noteq> y" and "x \<noteq> z" and "y \<noteq> z"
    and "loadmat st (data_dir st @ ''/'' @ x) ''MS'' = Inr ax"
    and "loadmat st (data_dir st @ ''/'' @ y) ''MS'' = Inr ay"
    and "loadmat st (data_dir st @ ''/'' @ z) ''MS'' = Inr az"
    and "tobytes ax = tobytes ay" and "tobytes az \<noteq> tobytes ax"
    and "coerce_float px ''VfFree'' = Inr vx" and "coerce_float py ''VfFree'' = Inr vy"
    and "float_lt vx vy"
    and "\<forall>xs. distinct xs \<longrightarrow> distinct (set_iter xs) \<and> set (set_iter xs) = set xs"
  shows "remove_duplicates set_iter st =
           (None, st\<lparr>stdout := stdout st @
                        [''1 microstructures has duplicates in '' @ data_dir st @ ''.'',
                         ''removed from json: '' @ data_dir st @ ''/'' @ y],
                      params_filename := dict_del (params_filename st) y,
                      fs := (fs st)(json_file st \<mapsto>
                              JsonFile (json_dump (dict_del (params_filename st) y)))\<rparr>) \<and>
         set (dict_del (params_filename st) y) = {(x, px), (z, pz)} \<and>
         map_of (dict_del (params_filename st) y) x = Some px \<and>
         map_of (dict_del (params_filename st) y) z = Some pz \<and>
         map_of (dict_del (params_filename st) y) y = None"
proof -
  have perm: "params_filename st \<in>
       {[(x, px), (y, py), (z, pz)], [(x, px), (z, pz), (y, py)], [(y, py), (x, px), (z, pz)],
        [(y, py), (z, pz), (x, px)], [(z, pz), (x, px), (y, py)], [(z, pz), (y, py), (x, px)]}"
    using assms(1-5) by (intro three_entries) auto
  have "remove_duplicates set_iter st =
           (None, st\<lparr>stdout := stdout st @
                        [''1 microstructures has duplicates in '' @ data_dir st @ ''.'',
                         ''removed from json: '' @ data_dir st @ ''/'' @ y],
                      params_filename := dict_del (params_filename st) y,
                      fs := (fs st)(json_file st \<mapsto>
                              JsonFile (json_dump (dict_del (params_filename st) y)))\<rparr>)"
  proof (rule remove_duplicates_ordered [OF perm assms(3-8) assms(9) refl _ assms(11,12,13)])
    show "tobytes az \<noteq> tobytes ay"
      using assms(9,10) by simp
    show "\<not> float_lt vy vx"
      using assms(13) by (rule float_lt_asym)
    show "set_iter [tobytes ay] = [tobytes ay]"
      using assms(14) by (rule set_iter_single)
  qed
  moreover have "set (dict_del (params_filename st) y) = {(x, px), (z, pz)} \<and>
      map_of (dict_del (params_filename st) y) x = Some px \<and>
      map_of (dict_del (params_filename st) y) z = Some pz \<and>
      map_of (dict_del (params_filename st) y) y = None"
    using perm assms(3-5) by (rule dict_del_three)
  ultimately show ?thesis
    by simp
qed

lemma vf_lt: "float_lt (dec_double False 2 (- 2)) (dec_double False 5 (- 2))"
  by (simp add: float_eval split del: if_split)

lemma names_distinct:
  "example_name \<noteq> name_a" "example_name \<noteq> name_c" "name_a \<noteq> name_c"
  by (simp_all add: example_name_def name_a_def name_c_def)

lemma dup_loadmat:
  "loadmat dup_state (data_dir dup_state @ ''/'' @ example_name) ''MS'' = Inr (NDArray ''0110'' [])"
  "loadmat dup_state (data_dir dup_state @ ''/'' @ name_a) ''MS'' = Inr (NDArray ''0110'' [])"
  "loadmat dup_state (data_dir dup_state @ ''/'' @ name_c) ''MS'' = Inr (NDArray ''1001'' [])"
  by (simp_all add: loadmat_def dup_state_def fresh_state_def example_name_def name_a_def
      name_c_def)

text \<open>
  The three example entries, the set visited in reverse: the entry with \<open>VfFree\<close> 0.05,
  first in the ledger, is the one removed.
\<close>

theorem remove_duplicates_three_files_witness:
  "remove_duplicates rev dup_state =
     (None, dup_state
        \<lparr>stdout := [''1 microstructures has duplicates in ./data.'',
                     ''removed from json: ./data/8_1_400_1_0.1_0.05_1_7.mat''],
         params_filename := [(example_name, example_params), (name_c, params_c)],
         fs := (fs dup_state)(''params_mat.json'' \<mapsto>
                 JsonFile (json_dump [(example_name, example_params), (name_c, params_c)]))\<rparr>)"
proof -
  have 1: "length (params_filename dup_state) = 3"
    by (simp add: dup_state_def)
  have 2: "set (params_filename dup_state) =
      {(example_name, example_params), (name_a, params_a), (name_c, params_c)}"
    by (simp add: dup_state_def insert_commute)
  have 3: "tobytes (NDArray ''0110'' []) = tobytes (NDArray ''0110'' [])"
    "tobytes (NDArray ''1001'' []) \<noteq> tobytes (NDArray ''0110'' [])"
    by simp_all
  have 4: "coerce_float example_params ''VfFree'' = Inr (dec_double False 2 (- 2))"
    "coerce_float params_a ''VfFree'' = Inr (dec_double False 5 (- 2))"
    by (simp_all add: coerce_float_def getitem_def example_params_def params_a_def)
  have 5: "\<forall>xs :: string list. distinct xs \<longrightarrow> distinct (rev xs) \<and> set (rev xs) = set xs"
    by simp
  have 6: "dict_del (params_filename dup_state) name_a =
      [(example_name, example_params), (name_c, params_c)]"
    using names_distinct by (simp add: dup_state_def dict_del_def)
  from remove_duplicates_three_files [OF 1 2 names_distinct dup_loadmat 3 4 vf_lt 5]
  show ?thesis
    by (simp add: 6) (simp add: dup_state_def fresh_state_def name_a_def)
qed

section \<open>Round trip through the ledger file\<close>

lemma foldl_dict_set_distinct:
  "distinct (map fst (acc @ xs)) \<Longrightarrow>
     foldl (\<lambda>d kv. dict_set d (fst kv) (snd kv)) acc xs = acc @ xs"
proof (induction xs arbitrary: acc)
  case Nil
  then show ?case by simp
next
  case (Cons x xs)
  from Cons.prems have "fst x \<notin> fst ` set acc"
    by auto
  then have "dict_set acc (fst x) (snd x) = acc @ [x]"
    by (simp add: dict_set_new)
  moreover from Cons.prems have "distinct (map fst ((acc @ [x]) @ xs))"
    by simp
  ultimately show ?case
    using Cons.IH [of "acc @ [x]"] by simp
qed

lemma load_dump_params:
  assumes "distinct (map fst p)" and "None \<notin> fst ` set p"
  shows "load_params (dump_params p) = p"
proof -
  have k: "Some (json_key (fst kv)) = fst kv" if "kv \<in> set p" for kv
    using that assms(2) by (cases "fst kv") (auto simp: json_key_def image_iff)
  have "load_params (dump_params p) =
      foldl (\<lambda>d kv. dict_set d (fst kv) (snd kv)) []
        (map (\<lambda>kv. (Some (json_key (fst kv)), snd kv)) p)"
    by (simp add: load_params_def dump_params_def foldl_map)
  also have "map (\<lambda>kv. (Some (json_key (fst kv)), snd kv)) p = p"
    by (rule map_idI) (simp add: k)
  also have "foldl (\<lambda>d kv. dict_set d (fst kv) (snd kv)) [] p = [] @ p"
    using assms(1) by (intro foldl_dict_set_distinct) simp
  finally show ?thesis by simp
qed

lemma load_dump:
  assumes "distinct (map fst l)"
    and "\<forall>e \<in> set l. distinct (map fst (snd e)) \<and> None \<notin> fst ` set (snd e)"
  shows "json_load (json_dump l) = l"
proof -
  have "json_load (json_dump l) =
      foldl (\<lambda>d e. dict_set d (fst e) (snd e)) []
        (map (\<lambda>e. (fst e, load_params (dump_params (snd e)))) l)"
    by (simp add: json_load_def json_dump_def foldl_map)
  also have "map (\<lambda>e. (fst e, load_params (dump_params (snd e)))) l = l"
    using assms(2) by (intro map_idI) (simp add: load_dump_params)
  also have "foldl (\<lambda>d e. dict_set d (fst e) (snd e)) [] l = [] @ l"
    using assms(1) by (intro foldl_dict_set_distinct) simp
  finally show ?thesis by simp
qed

text \<open>
  Claim C6, as amended. For a ledger whose parameter dictionaries have field names as
  their only keys, writing the ledger file and loading it at construction gives the same
  ledger. (That the file names are distinct, and the keys within a parameter dictionary,
  is what it is to be a Python dictionary.)
\<close>

theorem ledger_roundtrip:
  assumes "distinct (map fst (params_filename st))"
    and "\<forall>e \<in> set (params_filename st). distinct (map fst (snd e)) \<and> None \<notin> fst ` set (snd e)"
  shows "json_load (json_dump (params_filename st)) = params_filename st \<and>
         (\<exists>st'. init (json_file st) dd (fs (write_json st)) out = Inr st' \<and>
                 params_filename st' = params_filename st)"
  using load_dump [OF assms] by (simp add: init_def write_json_def)

lemma surplus_row_dict: "row_dict (hd surplus_csv) (hd (tl surplus_csv)) = surplus_row"
  by (simp add: row_dict_def surplus_csv_def surplus_row_def example_row_def)

lemma surplus_row_name: "generate_mat_name surplus_row = Inr example_name"
  by (simp add: surplus_row_def example_row_def example_name_def name_eval float_eval parse_eval
      split del: if_split)

lemma surplus_row_complete: "find (missing surplus_row) required_params = None"
  by (simp add: required_params_def missing_def surplus_row_def example_row_def)

lemma surplus_loaded:
  "params_filename (snd (load_job_params ''batch_jobs.csv'' surplus_state)) =
     [(example_name, surplus_row)]"
proof -
  have "add_job surplus_row surplus_state =
      (None, surplus_state\<lparr>params_filename := [(example_name, surplus_row)],
         fs := (fs surplus_state)(''params_mat.json'' \<mapsto>
                 JsonFile (json_dump [(example_name, surplus_row)])),
         jobs := [dict_set surplus_row (Some ''filename'') (PStr example_name)]\<rparr>)"
    using surplus_row_complete surplus_row_name
    by (subst add_job_success [where f = example_name])
      (simp_all add: surplus_state_def fresh_state_def)
  moreover have "fs surplus_state ''batch_jobs.csv'' =
      Some (CsvFile [hd surplus_csv, hd (tl surplus_csv)])"
    by (simp add: surplus_state_def surplus_csv_def)
  moreover have "set (hd surplus_csv) = set (params surplus_state)"
    by (simp add: surplus_state_def fresh_state_def surplus_csv_def required_params_def)
  moreover have "hd (tl surplus_csv) \<noteq> []"
    by (simp add: surplus_csv_def)
  ultimately show ?thesis
    by (simp add: load_job_params_def surplus_row_dict py_print_def)
qed

text \<open>
  Claim C6 as stated fails. A descriptor row with a surplus cell is admitted with the cell
  under the key \<^verbatim>\<open>None\<close>; the ledger file holds it under the name \<^verbatim>\<open>null\<close>, and loading
  the file gives the string key \<^verbatim>\<open>'null'\<close>: not the ledger that was persisted.
\<close>

theorem roundtrip_changes_none_key:
  "params_filename (snd (load_job_params ''batch_jobs.csv'' surplus_state)) =
     [(example_name, example_row @ [(None, PList [PStr ''x''])])] \<and>
   json_load (json_dump [(example_name, example_row @ [(None, PList [PStr ''x''])])]) =
     [(example_name, example_row @ [(Some ''null'', PList [PStr ''x''])])] \<and>
   json_load (json_dump [(example_name, example_row @ [(None, PList [PStr ''x''])])]) \<noteq>
     [(example_name, example_row @ [(None, PList [PStr ''x''])])]"
proof -
  have "json_load (json_dump [(example_name, example_row @ [(None, PList [PStr ''x''])])]) =
     [(example_name, example_row @ [(Some ''null'', PList [PStr ''x''])])]"
    by (simp add: json_load_def json_dump_def load_params_def dump_params_def json_key_def
        example_row_def)
  then show ?thesis
    using surplus_loaded by (simp add: surplus_row_def)
qed

text \<open>The ledger of the three example entries.\<close>

theorem ledger_roundtrip_witness:
  "json_load (json_dump (params_filename dup_state)) = params_filename dup_state \<and>
   (\<exists>st'. init ''params_mat.json'' ''./data'' (fs (write_json dup_state)) [] = Inr st' \<and>
           params_filename st' = params_filename dup_state)"
proof -
  have 1: "distinct (map fst (params_filename dup_state))"
    by (simp add: dup_state_def example_name_def name_a_def name_c_def)
  have 2: "\<forall>e \<in> set (params_filename dup_state).
      distinct (map fst (snd e)) \<and> None \<notin> fst ` set (snd e)"
    by (simp add: dup_state_def params_a_def params_c_def example_params_def)
  from ledger_roundtrip [OF 1 2, of "''./data''" "[]"] show ?thesis
    by (simp add: dup_state_def fresh_state_def)
qed

section \<open>The emitted script\<close>










end
